theory Spec2Isabelle
  imports Main "HOL-Library.Char_ord" "HOL-Library.List_Lexorder" "HOL-Library.Multiset"
begin

section \<open>Python values used by the two templates\<close>

text \<open>
  Python's \<open>s.startswith(p)\<close>, the truth value of a string and of the result of
  \<open>os.getenv\<close>, and the decimal text an f-string gives an integer.
\<close>

definition startswith :: "string \<Rightarrow> string \<Rightarrow> bool" where
  "startswith s p = (take (length p) s = p)"

type_synonym environ = "string \<rightharpoonup> string"

definition getenv :: "environ \<Rightarrow> string \<Rightarrow> string option" where
  "getenv env k = env k"

definition getenv_default :: "environ \<Rightarrow> string \<Rightarrow> string \<Rightarrow> string" where
  "getenv_default env k d = (case env k of None \<Rightarrow> d | Some v \<Rightarrow> v)"

text \<open>\<open>bool(x)\<close> for \<open>x\<close> of type \<open>Optional[str]\<close>: \<open>None\<close> and the empty string are false.\<close>

definition truthy :: "string option \<Rightarrow> bool" where
  "truthy v = (case v of None \<Rightarrow> False | Some s \<Rightarrow> s \<noteq> [])"

definition digit_char :: "nat \<Rightarrow> char" where
  "digit_char d = ''0123456789'' ! d"

fun str_nat :: "nat \<Rightarrow> string" where
  "str_nat n = (if n < 10 then [digit_char n] else str_nat (n div 10) @ [digit_char (n mod 10)])"

declare str_nat.simps [simp del]

definition str_int :: "int \<Rightarrow> string" where
  "str_int i = (if i < 0 then CHR ''-'' # str_nat (nat (- i)) else str_nat (nat i))"

text \<open>
  \<open>x or 0\<close> for the result of \<open>scalar()\<close>, an integer or \<open>None\<close>: every false value
  (\<open>None\<close> and \<open>0\<close>) gives \<open>0\<close>.
\<close>

definition or_zero :: "int option \<Rightarrow> int" where
  "or_zero v = (case v of None \<Rightarrow> 0 | Some x \<Rightarrow> if x = 0 then 0 else x)"

section \<open>Exceptions, JSON values, the session and the database behind it\<close>

text \<open>
  An exception is FastAPI's \<open>HTTPException\<close> with its status code and detail, or any other
  \<open>Exception\<close>, carried with the text \<open>str(e)\<close> gives.
\<close>

datatype exn = HTTPException nat string | Error string

text \<open>\<open>str(e)\<close>; Starlette prints an \<open>HTTPException\<close> as status code, colon, detail.\<close>

fun str_exn :: "exn \<Rightarrow> string" where
  "str_exn (Error msg) = msg"
| "str_exn (HTTPException code detail) = str_nat code @ '': '' @ detail"

datatype json =
    JNull
  | JBool bool
  | JInt int
  | JStr string
  | JList "json list"
  | JObj "(string \<times> json) list"

text \<open>
  A session is the object the handlers call methods on. Its state is the sequence of
  method calls made on it so far, oldest first; a statement that raised was still sent.
\<close>

datatype event = Execute string | Commit | Rollback | Close

type_synonym session = "event list"

record column =
  col_name :: string
  col_type :: string
  col_nullable :: bool
  col_default :: "string option"

record index =
  idx_name :: "string option"
  idx_column_names :: "string list"
  idx_unique :: bool

record inspector =
  get_table_names :: "string + string list"
  get_columns :: "string \<Rightarrow> string + column list"
  get_indexes :: "string \<Rightarrow> string + index list"

text \<open>
  The database server and the SQLAlchemy library are outside the repository. Their
  behaviour is a parameter: what a statement answers after the calls made so far on the
  session (the text of the exception it raises, or the value \<open>scalar()\<close> reads, \<open>None\<close>
  for SQL NULL), whether a commit or a rollback raises, and what \<open>inspect(engine)\<close>
  gives. \<open>close()\<close> is taken to return normally.
\<close>

record backend =
  execute_result :: "event list \<Rightarrow> string \<Rightarrow> string + int option"
  commit_result :: "event list \<Rightarrow> string option"
  rollback_result :: "event list \<Rightarrow> string option"
  inspect_engine :: "string + inspector"

definition execute :: "backend \<Rightarrow> string \<Rightarrow> session \<Rightarrow> (exn + int option) \<times> session" where
  "execute b stmt db =
     (case execute_result b db stmt of
        Inl msg \<Rightarrow> (Inl (Error msg), db @ [Execute stmt])
      | Inr v \<Rightarrow> (Inr v, db @ [Execute stmt]))"

definition commit :: "backend \<Rightarrow> session \<Rightarrow> (exn + unit) \<times> session" where
  "commit b db =
     (case commit_result b db of
        Some msg \<Rightarrow> (Inl (Error msg), db @ [Commit])
      | None \<Rightarrow> (Inr (), db @ [Commit]))"

definition rollback :: "backend \<Rightarrow> session \<Rightarrow> (exn + unit) \<times> session" where
  "rollback b db =
     (case rollback_result b db of
        Some msg \<Rightarrow> (Inl (Error msg), db @ [Rollback])
      | None \<Rightarrow> (Inr (), db @ [Rollback]))"

definition close :: "session \<Rightarrow> session" where
  "close db = db @ [Close]"

definition closed :: "session \<Rightarrow> bool" where
  "closed db = (db \<noteq> [] \<and> last db = Close)"

text \<open>
  \<open>print\<close> writes to the standard output, which is outside the repository too: the
  console is a parameter that says, for a text, whether writing it raises (as an output
  stream whose encoding lacks a character of the text does) and with what message. A
  string is its UTF-8 bytes, so a character outside ASCII is several bytes. What is
  written is not recorded.
\<close>

type_synonym console = "string \<Rightarrow> string option"

definition print :: "console \<Rightarrow> string \<Rightarrow> exn + unit" where
  "print console text =
     (case console text of
        Some msg \<Rightarrow> Inl (Error msg)
      | None \<Rightarrow> Inr ())"

section \<open>database\_connection.py\<close>

subsection \<open>Module import: environment and engine configuration\<close>

datatype poolclass = StaticPool

record engine =
  url :: string
  connect_args :: "(string \<times> bool) list"
  pool_class :: "poolclass option"
  pool_size :: "nat option"
  max_overflow :: "nat option"
  pool_pre_ping :: "bool option"
  pool_recycle :: "nat option"
  echo :: bool




subsection \<open>The session dependency\<close>

text \<open>
  \<open>SessionLocal()\<close> gives a fresh session. \<open>get_db\<close> is a generator with one \<open>yield\<close>
  inside \<open>try\<close> ... \<open>finally\<close>: it runs up to the \<open>yield\<close>, handing out the session, and is
  resumed once, either normally or with the handler's exception thrown in at the
  \<open>yield\<close>. The \<open>finally\<close> block runs in both cases, then the generator ends or the
  exception goes on.
\<close>

definition SessionLocal :: session where
  "SessionLocal = []"

datatype resume = Next | Throw exn

definition get_db_enter :: session where
  "get_db_enter = SessionLocal"

definition get_db_exit :: "resume \<Rightarrow> session \<Rightarrow> exn option \<times> session" where
  "get_db_exit r db =
     (let db' = close db
      in case r of Next \<Rightarrow> (None, db') | Throw e \<Rightarrow> (Some e, db'))"

text \<open>
  A request served through \<open>Depends(get_db)\<close>: the framework enters the generator,
  calls the handler with the session, and resumes the generator with the outcome.
\<close>

definition serve_with_db :: "(session \<Rightarrow> (exn + 'a) \<times> session) \<Rightarrow> (exn + 'a) \<times> session" where
  "serve_with_db handler =
     (let db = get_db_enter;
          (res, db1) = handler db;
          (ex, db2) = get_db_exit (case res of Inl e \<Rightarrow> Throw e | Inr _ \<Rightarrow> Next) db1
      in (case ex of Some e \<Rightarrow> Inl e | None \<Rightarrow> res, db2))"

subsection \<open>fix\_sequence\<close>

text \<open>
  The three messages of \<open>fix_sequence\<close>, lines 114, 129 and 131. Each starts with a
  character outside ASCII: the warning sign U+26A0 with the variation selector U+FE0F,
  the check mark U+2705 and the cross mark U+274C.
\<close>

definition not_needed_message :: string where
  "not_needed_message =
     [CHR 0xE2, CHR 0x9A, CHR 0xA0, CHR 0xEF, CHR 0xB8, CHR 0x8F]
     @ ''  Sequence fix only needed for PostgreSQL''"

definition fixed_message :: "string \<Rightarrow> int \<Rightarrow> string" where
  "fixed_message table_name max_id =
     [CHR 0xE2, CHR 0x9C, CHR 0x85] @ '' Fixed sequence for '' @ table_name
     @ '' (restarted at '' @ str_int (max_id + 1) @ '')''"

definition error_message :: "string \<Rightarrow> exn \<Rightarrow> string" where
  "error_message table_name e =
     [CHR 0xE2, CHR 0x9D, CHR 0x8C] @ '' Error fixing sequence for '' @ table_name
     @ '': '' @ str_exn e"

text \<open>
  The body of the \<open>try\<close> block, lines 119 to 129: an exception of a statement, of the
  commit or of the \<open>print\<close> that follows it ends the block. \<open>DATABASE_URL\<close> is the
  module's global, read at import.
\<close>

definition fix_sequence_body ::
    "console \<Rightarrow> backend \<Rightarrow> string \<Rightarrow> session \<Rightarrow> (exn + unit) \<times> session" where
  "fix_sequence_body console b table_name db =
     (case execute b (''SELECT MAX(id) FROM '' @ table_name) db of
        (Inl e, db1) \<Rightarrow> (Inl e, db1)
      | (Inr v, db1) \<Rightarrow>
          (let max_id = or_zero v
           in case execute b (''ALTER SEQUENCE '' @ table_name @ ''_id_seq RESTART WITH ''
                               @ str_int (max_id + 1)) db1 of
                (Inl e, db2) \<Rightarrow> (Inl e, db2)
              | (Inr _, db2) \<Rightarrow>
                  (case commit b db2 of
                     (Inl e, db3) \<Rightarrow> (Inl e, db3)
                   | (Inr _, db3) \<Rightarrow> (print console (fixed_message table_name max_id), db3))))"

text \<open>
  Lines 113 to 132. The \<open>print\<close> before the early return is outside the \<open>try\<close>; in the
  \<open>except\<close> handler the \<open>print\<close> comes before \<open>rollback()\<close>, so an exception of that
  \<open>print\<close> leaves the handler before the rollback, and an exception of the rollback
  leaves it too.
\<close>

definition fix_sequence ::
    "console \<Rightarrow> backend \<Rightarrow> string \<Rightarrow> string \<Rightarrow> session \<Rightarrow> (exn + unit) \<times> session" where
  "fix_sequence console b DATABASE_URL table_name db_session =
     (if \<not> startswith DATABASE_URL ''postgresql''
      then (print console not_needed_message, db_session)
      else case fix_sequence_body console b table_name db_session of
             (Inr u, db1) \<Rightarrow> (Inr (), db1)
           | (Inl e, db1) \<Rightarrow>
               (case print console (error_message table_name e) of
                  Inl e' \<Rightarrow> (Inl e', db1)
                | Inr _ \<Rightarrow> rollback b db1))"

section \<open>diagnostic\_endpoints.py\<close>

text \<open>
  What the handlers read besides their arguments: the process environment, the clock
  (the text of \<open>datetime.utcnow().isoformat()\<close>), \<open>sys.version_info\<close>, and the
  database behind \<open>engine\<close> and the session.
\<close>

record world =
  environ :: environ
  utcnow_isoformat :: string
  version_major :: nat
  version_minor :: nat
  version_micro :: nat
  database :: backend

fun json_opt_int :: "int option \<Rightarrow> json" where
  "json_opt_int None = JNull"
| "json_opt_int (Some i) = JInt i"

fun json_opt_str :: "string option \<Rightarrow> json" where
  "json_opt_str None = JNull"
| "json_opt_str (Some s) = JStr s"

subsection \<open>GET /health\<close>

definition health_check :: "world \<Rightarrow> json" where
  "health_check w =
     JObj [(''status'', JStr ''healthy''),
           (''timestamp'', JStr (utcnow_isoformat w)),
           (''service'', JStr ''your-app-name'')]"

subsection \<open>GET /db-check\<close>

definition database_check_body :: "world \<Rightarrow> session \<Rightarrow> (exn + json) \<times> session" where
  "database_check_body w db =
     (case execute (database w) ''SELECT 1'' db of
        (Inl e, db1) \<Rightarrow> (Inl e, db1)
      | (Inr _, db1) \<Rightarrow>
          (case inspect_engine (database w) of
             Inl msg \<Rightarrow> (Inl (Error msg), db1)
           | Inr insp \<Rightarrow>
               (case get_table_names insp of
                  Inl msg \<Rightarrow> (Inl (Error msg), db1)
                | Inr tables \<Rightarrow>
                    (Inr (JObj [(''connected'', JBool True),
                                (''database_url_set'', JBool (truthy (getenv (environ w) ''DATABASE_URL''))),
                                (''table_count'', JInt (int (length tables))),
                                (''tables'', JList (map JStr (sort tables))),
                                (''timestamp'', JStr (utcnow_isoformat w))]), db1))))"

definition database_check :: "world \<Rightarrow> session \<Rightarrow> (exn + json) \<times> session" where
  "database_check w db =
     (case database_check_body w db of
        (Inr j, db1) \<Rightarrow> (Inr j, db1)
      | (Inl e, db1) \<Rightarrow>
          (Inr (JObj [(''connected'', JBool False),
                      (''error'', JStr (str_exn e)),
                      (''database_url_set'', JBool (truthy (getenv (environ w) ''DATABASE_URL''))),
                      (''timestamp'', JStr (utcnow_isoformat w))]), db1))"

subsection \<open>GET /env-check\<close>

definition environment_check :: "world \<Rightarrow> json" where
  "environment_check w =
     JObj [(''environment'', JStr (getenv_default (environ w) ''ENVIRONMENT'' ''unknown'')),
           (''variables'',
              JObj [(''database_url_set'', JBool (truthy (getenv (environ w) ''DATABASE_URL''))),
                    (''environment_set'', JBool (truthy (getenv (environ w) ''ENVIRONMENT''))),
                    (''log_level_set'', JBool (truthy (getenv (environ w) ''LOG_LEVEL''))),
                    (''finnhub_api_key_set'', JBool (truthy (getenv (environ w) ''FINNHUB_API_KEY''))),
                    (''alpha_vantage_api_key_set'', JBool (truthy (getenv (environ w) ''ALPHA_VANTAGE_API_KEY''))),
                    (''redis_url_set'', JBool (truthy (getenv (environ w) ''REDIS_URL''))),
                    (''sentry_dsn_set'', JBool (truthy (getenv (environ w) ''SENTRY_DSN'')))]),
           (''timestamp'', JStr (utcnow_isoformat w))]"

subsection \<open>GET /table-info/\{table\_name\}\<close>

definition column_json :: "column \<Rightarrow> json" where
  "column_json col =
     JObj [(''name'', JStr (col_name col)),
           (''type'', JStr (col_type col)),
           (''nullable'', JBool (col_nullable col)),
           (''default'', if truthy (col_default col) then json_opt_str (col_default col) else JNull)]"

definition index_json :: "index \<Rightarrow> json" where
  "index_json idx =
     JObj [(''name'', json_opt_str (idx_name idx)),
           (''columns'', JList (map JStr (idx_column_names idx))),
           (''unique'', JBool (idx_unique idx))]"

definition table_info_body :: "world \<Rightarrow> string \<Rightarrow> session \<Rightarrow> (exn + json) \<times> session" where
  "table_info_body w table_name db =
     (case inspect_engine (database w) of
        Inl msg \<Rightarrow> (Inl (Error msg), db)
      | Inr insp \<Rightarrow>
          (case get_table_names insp of
             Inl msg \<Rightarrow> (Inl (Error msg), db)
           | Inr tables \<Rightarrow>
               if table_name \<notin> set tables
               then (Inl (HTTPException 404 (''Table '' @ [CHR 0x27] @ table_name @ [CHR 0x27] @ '' not found'')), db)
               else
                 (case get_columns insp table_name of
                    Inl msg \<Rightarrow> (Inl (Error msg), db)
                  | Inr columns \<Rightarrow>
                      (case execute (database w) (''SELECT COUNT(*) FROM '' @ table_name) db of
                         (Inl e, db1) \<Rightarrow> (Inl e, db1)
                       | (Inr row_count, db1) \<Rightarrow>
                           (case get_indexes insp table_name of
                              Inl msg \<Rightarrow> (Inl (Error msg), db1)
                            | Inr indexes \<Rightarrow>
                                (Inr (JObj [(''table_name'', JStr table_name),
                                            (''row_count'', json_opt_int row_count),
                                            (''column_count'', JInt (int (length columns))),
                                            (''columns'', JList (map column_json columns)),
                                            (''indexes'', JList (map index_json indexes)),
                                            (''timestamp'', JStr (utcnow_isoformat w))]), db1))))))"

definition table_info :: "world \<Rightarrow> string \<Rightarrow> session \<Rightarrow> (exn + json) \<times> session" where
  "table_info w table_name db =
     (case table_info_body w table_name db of
        (Inr j, db1) \<Rightarrow> (Inr j, db1)
      | (Inl (HTTPException code detail), db1) \<Rightarrow> (Inl (HTTPException code detail), db1)
      | (Inl (Error msg), db1) \<Rightarrow>
          (Inl (HTTPException 500 (''Error getting table info: '' @ str_exn (Error msg))), db1))"

subsection \<open>GET /sequence-check/\{table\_name\}\<close>

text \<open>
  \<open>next_val > max_id\<close>: \<open>max_id\<close> is an integer after \<open>or 0\<close>; a \<open>next_val\<close> of \<open>None\<close>
  raises \<open>TypeError\<close>.
\<close>

definition greater_than :: "int option \<Rightarrow> int \<Rightarrow> exn + bool" where
  "greater_than next_val max_id =
     (case next_val of
        None \<Rightarrow> Inl (Error (CHR 0x27 # ''>'' @ CHR 0x27 # '' not supported between instances of ''
                              @ CHR 0x27 # ''NoneType'' @ CHR 0x27 # '' and '' @ CHR 0x27 # ''int'' @ [CHR 0x27]))
      | Some n \<Rightarrow> Inr (n > max_id))"

definition sequence_check_body :: "world \<Rightarrow> string \<Rightarrow> session \<Rightarrow> (exn + json) \<times> session" where
  "sequence_check_body w table_name db =
     (case execute (database w) (''SELECT MAX(id) FROM '' @ table_name) db of
        (Inl e, db1) \<Rightarrow> (Inl e, db1)
      | (Inr v, db1) \<Rightarrow>
          (let max_id = or_zero v;
               sequence_name = table_name @ ''_id_seq''
           in case execute (database w) (''SELECT last_value FROM '' @ sequence_name) db1 of
                (Inl e, db2) \<Rightarrow> (Inl e, db2)
              | (Inr next_val, db2) \<Rightarrow>
                  (case greater_than next_val max_id of
                     Inl e \<Rightarrow> (Inl e, db2)
                   | Inr in_sync \<Rightarrow>
                       (Inr (JObj [(''table_name'', JStr table_name),
                                   (''max_id'', JInt max_id),
                                   (''next_sequence_value'', json_opt_int next_val),
                                   (''in_sync'', JBool in_sync),
                                   (''needs_fix'', JBool (\<not> in_sync)),
                                   (''fix_command'',
                                      if \<not> in_sync
                                      then JStr (''ALTER SEQUENCE '' @ sequence_name @ '' RESTART WITH ''
                                                 @ str_int (max_id + 1) @ '';'')
                                      else JNull),
                                   (''timestamp'', JStr (utcnow_isoformat w))]), db2))))"

definition sequence_check :: "world \<Rightarrow> string \<Rightarrow> session \<Rightarrow> (exn + json) \<times> session" where
  "sequence_check w table_name db =
     (let database_url = getenv_default (environ w) ''DATABASE_URL'' []
      in if \<not> startswith database_url ''postgresql''
         then (Inr (JObj [(''error'', JStr ''Sequence check only applicable to PostgreSQL''),
                          (''database_type'',
                             JStr (if startswith database_url ''sqlite'' then ''sqlite'' else ''unknown''))]), db)
         else case sequence_check_body w table_name db of
                (Inr j, db1) \<Rightarrow> (Inr j, db1)
              | (Inl e, db1) \<Rightarrow>
                  (Inl (HTTPException 500 (''Error checking sequence: '' @ str_exn e)), db1))"

subsection \<open>GET /version\<close>

definition version_info :: "world \<Rightarrow> json" where
  "version_info w =
     (let database_url = getenv_default (environ w) ''DATABASE_URL'' [];
          db_type = (if startswith database_url ''postgresql'' then ''PostgreSQL''
                     else if startswith database_url ''sqlite'' then ''SQLite''
                     else ''Unknown'')
      in JObj [(''app_version'', JStr ''1.0.0''),
               (''python_version'',
                  JStr (str_nat (version_major w) @ ''.'' @ str_nat (version_minor w) @ ''.''
                        @ str_nat (version_micro w))),
               (''database_type'', JStr db_type),
               (''environment'', JStr (getenv_default (environ w) ''ENVIRONMENT'' ''unknown'')),
               (''timestamp'', JStr (utcnow_isoformat w))])"

subsection \<open>The router\<close>

text \<open>
  A handler takes no argument, the session of \<open>Depends(get_db)\<close>, or the path parameter
  \<open>table_name\<close> and the session. The router holds the routes in the order of their
  \<open>@router.get\<close> decorators.
\<close>

datatype handler =
    NoArgs "world \<Rightarrow> json"
  | WithDb "world \<Rightarrow> session \<Rightarrow> (exn + json) \<times> session"
  | WithTableDb "world \<Rightarrow> string \<Rightarrow> session \<Rightarrow> (exn + json) \<times> session"

record route =
  http_method :: string
  path :: string
  endpoint :: handler

definition router :: "route list" where
  "router =
     [\<lparr> http_method = ''GET'', path = ''/health'', endpoint = NoArgs health_check \<rparr>,
      \<lparr> http_method = ''GET'', path = ''/db-check'', endpoint = WithDb database_check \<rparr>,
      \<lparr> http_method = ''GET'', path = ''/env-check'', endpoint = NoArgs environment_check \<rparr>,
      \<lparr> http_method = ''GET'', path = ''/table-info/{table_name}'', endpoint = WithTableDb table_info \<rparr>,
      \<lparr> http_method = ''GET'', path = ''/sequence-check/{table_name}'', endpoint = WithTableDb sequence_check \<rparr>,
      \<lparr> http_method = ''GET'', path = ''/version'', endpoint = NoArgs version_info \<rparr>]"

text \<open>Calling a route's handler with the arguments the framework gives it.\<close>

fun call_endpoint :: "handler \<Rightarrow> world \<Rightarrow> string \<Rightarrow> session \<Rightarrow> (exn + json) \<times> session" where
  "call_endpoint (NoArgs f) w table_name db = (Inr (f w), db)"
| "call_endpoint (WithDb f) w table_name db = f w db"
| "call_endpoint (WithTableDb f) w table_name db = f w table_name db"

fun is_mapping :: "json \<Rightarrow> bool" where
  "is_mapping (JObj kvs) = True"
| "is_mapping _ = False"

text \<open>A JSON object's field, and the object without one of its keys.\<close>

fun field :: "json \<Rightarrow> string \<Rightarrow> json option" where
  "field (JObj kvs) k = map_of kvs k"
| "field _ k = None"

fun without_key :: "string \<Rightarrow> json \<Rightarrow> json" where
  "without_key k (JObj kvs) = JObj (filter (\<lambda>kv. fst kv \<noteq> k) kvs)"
| "without_key k j = j"

section \<open>Example inputs\<close>

text \<open>
  A database with the tables \<open>users\<close> (41 rows, largest id 41, sequence at 42),
  \<open>orders\<close> (no rows, sequence at 1, its indexes unreadable) and \<open>events\<close> (largest
  id 10, sequence at 10); a statement on \<open>ghosts\<close> raises.
\<close>

definition example_inspector :: inspector where
  "example_inspector =
     \<lparr> get_table_names = Inr [''users'', ''orders''],
       get_columns = (\<lambda>t. Inr [\<lparr> col_name = ''id'', col_type = ''INTEGER'',
                                 col_nullable = False, col_default = None \<rparr>,
                               \<lparr> col_name = ''status'', col_type = ''VARCHAR(16)'',
                                 col_nullable = True, col_default = Some ''new'' \<rparr>]),
       get_indexes = (\<lambda>t. if t = ''orders'' then Inl ''permission denied for table orders''
                          else Inr [\<lparr> idx_name = Some ''ix_status'', idx_column_names = [''status''],
                                      idx_unique = False \<rparr>]) \<rparr>"

definition example_backend :: backend where
  "example_backend =
     \<lparr> execute_result = (\<lambda>h stmt.
          if stmt = ''SELECT MAX(id) FROM users'' then Inr (Some 41)
          else if stmt = ''SELECT COUNT(*) FROM users'' then Inr (Some 41)
          else if stmt = ''SELECT last_value FROM users_id_seq'' then Inr (Some 42)
          else if stmt = ''SELECT last_value FROM orders_id_seq'' then Inr (Some 1)
          else if stmt = ''SELECT MAX(id) FROM events'' then Inr (Some 10)
          else if stmt = ''SELECT last_value FROM events_id_seq'' then Inr (Some 10)
          else if stmt = ''SELECT MAX(id) FROM ghosts'' then Inl ''relation does not exist''
          else Inr None),
       commit_result = (\<lambda>h. None),
       rollback_result = (\<lambda>h. None),
       inspect_engine = Inr example_inspector \<rparr>"

definition example_world :: "environ \<Rightarrow> world" where
  "example_world env =
     \<lparr> environ = env, utcnow_isoformat = ''2024-01-01T00:00:00'',
       version_major = 3, version_minor = 11, version_micro = 4,
       database = example_backend \<rparr>"

definition postgres_world :: world where
  "postgres_world = example_world [''DATABASE_URL'' \<mapsto> ''postgresql://app@db/app'']"

definition sqlite_world :: world where
  "sqlite_world = example_world [''DATABASE_URL'' \<mapsto> ''sqlite:///./dev.db'']"


text \<open>
  A console that takes every text, and one whose encoding is ASCII: there \<open>print\<close>
  raises \<open>UnicodeEncodeError\<close> for a text with a byte outside ASCII (the message is the
  one Python gives when the offending character is the cross mark at position 0).
\<close>

definition utf8_console :: console where
  "utf8_console text = None"


text \<open>A database server that cannot be reached.\<close>

definition unreachable_backend :: backend where
  "unreachable_backend =
     \<lparr> execute_result = (\<lambda>h stmt. Inl ''connection refused''),
       commit_result = (\<lambda>h. Some ''connection refused''),
       rollback_result = (\<lambda>h. Some ''connection refused''),
       inspect_engine = Inl ''connection refused'' \<rparr>"

definition unreachable_world :: world where
  "unreachable_world = postgres_world \<lparr> database := unreachable_backend \<rparr>"

text \<open>The names \<open>environment_check\<close> looks up, in the order of the source.\<close>

definition checked_variables :: "string list" where
  "checked_variables =
     [''DATABASE_URL'', ''ENVIRONMENT'', ''LOG_LEVEL'', ''FINNHUB_API_KEY'',
      ''ALPHA_VANTAGE_API_KEY'', ''REDIS_URL'', ''SENTRY_DSN'']"

section \<open>Properties\<close>

subsection \<open>Auxiliary facts\<close>

lemma or_zero_eq: "or_zero v = (case v of None \<Rightarrow> 0 | Some x \<Rightarrow> x)"
  by (simp add: or_zero_def split: option.split)

lemma execute_eq:
  "execute b stmt db =
     (case execute_result b db stmt of Inl msg \<Rightarrow> Inl (Error msg) | Inr v \<Rightarrow> Inr v, db @ [Execute stmt])"
  by (simp add: execute_def split: sum.split)

lemma database_check_mapping: "\<exists>kvs. fst (database_check w db) = Inr (JObj kvs)"
  by (simp add: database_check_def database_check_body_def execute_eq
           split: sum.split prod.split)

lemma table_info_mapping: "fst (table_info w t db) = Inr j \<Longrightarrow> is_mapping j"
  by (auto simp add: table_info_def table_info_body_def execute_eq
           split: sum.splits prod.splits exn.splits if_splits)

lemma sequence_check_mapping: "fst (sequence_check w t db) = Inr j \<Longrightarrow> is_mapping j"
  by (auto simp add: sequence_check_def sequence_check_body_def execute_eq Let_def greater_than_def
           split: sum.splits prod.splits exn.splits if_splits option.splits)

lemma example_db_check:
  "database_check (example_world Map.empty) [] =
     (Inr (JObj [(''connected'', JBool True), (''database_url_set'', JBool False),
                 (''table_count'', JInt 2),
                 (''tables'', JList [JStr ''orders'', JStr ''users'']),
                 (''timestamp'', JStr ''2024-01-01T00:00:00'')]),
      [Execute ''SELECT 1''])"
  by code_simp

lemma commit_eq:
  "commit b db = (case commit_result b db of Some msg \<Rightarrow> Inl (Error msg) | None \<Rightarrow> Inr (), db @ [Commit])"
  by (simp add: commit_def split: option.split)

lemma rollback_eq:
  "rollback b db =
     (case rollback_result b db of Some msg \<Rightarrow> Inl (Error msg) | None \<Rightarrow> Inr (), db @ [Rollback])"
  by (simp add: rollback_def split: option.split)

lemma str_int_examples: "str_int 1 = ''1''" "str_int 42 = ''42''"
  by (simp_all add: str_int_def str_nat.simps digit_char_def)

lemma example_sequence_check_ghosts:
  "sequence_check postgres_world ''ghosts'' [] =
     (Inl (HTTPException 500 ''Error checking sequence: relation does not exist''),
      [Execute ''SELECT MAX(id) FROM ghosts''])"
  by code_simp

subsection \<open>The router and its handlers\<close>

text \<open>
  C1, as stated, fails: the router does not hold seven handlers.
\<close>

theorem router_length_counterexample: "length router \<noteq> 7"
  by (simp add: router_def)

text \<open>
  C1, amended: the router module defines exactly six request handlers, on the paths
  \<open>/health\<close>, \<open>/db-check\<close>, \<open>/env-check\<close>, \<open>/table-info/{table_name}\<close>,
  \<open>/sequence-check/{table_name}\<close> and \<open>/version\<close>, and whenever one of them returns
  (rather than raising) its result is a JSON object.
\<close>

theorem router_six_handlers:
  "length router = 6
   \<and> map path router = [''/health'', ''/db-check'', ''/env-check'', ''/table-info/{table_name}'',
                         ''/sequence-check/{table_name}'', ''/version'']
   \<and> (\<forall>r \<in> set router. \<forall>w t db j.
          fst (call_endpoint (endpoint r) w t db) = Inr j \<longrightarrow> is_mapping j)"
proof (intro conjI ballI allI impI)
  show "length router = 6" by (simp add: router_def)
  show "map path router = [''/health'', ''/db-check'', ''/env-check'', ''/table-info/{table_name}'',
                         ''/sequence-check/{table_name}'', ''/version'']"
    by (simp add: router_def)
next
  fix r w t db j
  assume r: "r \<in> set router" and j: "fst (call_endpoint (endpoint r) w t db) = Inr j"
  from r have "endpoint r \<in> {NoArgs health_check, WithDb database_check, NoArgs environment_check,
      WithTableDb table_info, WithTableDb sequence_check, NoArgs version_info}"
    by (auto simp add: router_def)
  then consider "endpoint r = NoArgs health_check" | "endpoint r = WithDb database_check"
    | "endpoint r = NoArgs environment_check" | "endpoint r = WithTableDb table_info"
    | "endpoint r = WithTableDb sequence_check" | "endpoint r = NoArgs version_info"
    by blast
  then show "is_mapping j"
  proof cases
    case 1 with j show ?thesis by (auto simp add: health_check_def)
  next
    case 2 with j database_check_mapping [of w db] show ?thesis by auto
  next
    case 3 with j show ?thesis by (auto simp add: environment_check_def)
  next
    case 4 with j table_info_mapping show ?thesis by auto
  next
    case 5 with j sequence_check_mapping show ?thesis by auto
  next
    case 6 with j show ?thesis by (auto simp add: version_info_def Let_def)
  qed
qed

theorem router_six_handlers_witness:
  "\<lparr> http_method = ''GET'', path = ''/db-check'', endpoint = WithDb database_check \<rparr> \<in> set router
   \<and> fst (call_endpoint (WithDb database_check) (example_world Map.empty) ''users'' []) =
       Inr (JObj [(''connected'', JBool True), (''database_url_set'', JBool False),
                  (''table_count'', JInt 2),
                  (''tables'', JList [JStr ''orders'', JStr ''users'']),
                  (''timestamp'', JStr ''2024-01-01T00:00:00'')])
   \<and> is_mapping (JObj [(''connected'', JBool True), (''database_url_set'', JBool False),
                  (''table_count'', JInt 2),
                  (''tables'', JList [JStr ''orders'', JStr ''users'']),
                  (''timestamp'', JStr ''2024-01-01T00:00:00'')])"
proof -
  let ?r = "\<lparr> http_method = ''GET'', path = ''/db-check'', endpoint = WithDb database_check \<rparr>"
  have r: "?r \<in> set router" by (simp add: router_def)
  have c: "fst (call_endpoint (endpoint ?r) (example_world Map.empty) ''users'' []) =
       Inr (JObj [(''connected'', JBool True), (''database_url_set'', JBool False),
                  (''table_count'', JInt 2),
                  (''tables'', JList [JStr ''orders'', JStr ''users'']),
                  (''timestamp'', JStr ''2024-01-01T00:00:00'')])"
    by (simp add: example_db_check)
  from router_six_handlers
  have "\<forall>r \<in> set router. \<forall>w t db j.
          fst (call_endpoint (endpoint r) w t db) = Inr j \<longrightarrow> is_mapping j"
    by blast
  with r c have "is_mapping (JObj [(''connected'', JBool True), (''database_url_set'', JBool False),
                  (''table_count'', JInt 2),
                  (''tables'', JList [JStr ''orders'', JStr ''users'']),
                  (''timestamp'', JStr ''2024-01-01T00:00:00'')])"
    by blast
  with r c show ?thesis by simp
qed

subsection \<open>The sequence check\<close>

text \<open>
  C2: when \<open>DATABASE_URL\<close> starts with \<open>postgresql\<close> and both queries succeed, the
  sequence check reports \<open>in_sync\<close> true exactly when the sequence's \<open>last_value\<close> is
  strictly greater than the table's largest id, an empty table (\<open>MAX(id)\<close> is NULL)
  counting as 0, and \<open>needs_fix\<close> is the negation of \<open>in_sync\<close>.
\<close>

theorem sequence_check_in_sync:
  assumes url: "environ w ''DATABASE_URL'' = Some database_url"
    and pg: "startswith database_url ''postgresql''"
    and q1: "execute_result (database w) db (''SELECT MAX(id) FROM '' @ table_name) = Inr max_row"
    and q2: "execute_result (database w) (db @ [Execute (''SELECT MAX(id) FROM '' @ table_name)])
               (''SELECT last_value FROM '' @ table_name @ ''_id_seq'') = Inr (Some last_value)"
    and m: "max_id = (case max_row of None \<Rightarrow> 0 | Some x \<Rightarrow> x)"
  shows "\<exists>j. fst (sequence_check w table_name db) = Inr j
           \<and> field j ''max_id'' = Some (JInt max_id)
           \<and> field j ''next_sequence_value'' = Some (JInt last_value)
           \<and> field j ''in_sync'' = Some (JBool (last_value > max_id))
           \<and> field j ''needs_fix'' = Some (JBool (\<not> (last_value > max_id)))"
  using url pg q1 q2 m
  by (simp add: sequence_check_def sequence_check_body_def execute_eq Let_def greater_than_def
        or_zero_eq getenv_default_def)

theorem sequence_check_in_sync_witness:
  "environ postgres_world ''DATABASE_URL'' = Some ''postgresql://app@db/app''
   \<and> startswith ''postgresql://app@db/app'' ''postgresql''
   \<and> execute_result (database postgres_world) [] (''SELECT MAX(id) FROM '' @ ''orders'') = Inr None
   \<and> execute_result (database postgres_world) ([] @ [Execute (''SELECT MAX(id) FROM '' @ ''orders'')])
        (''SELECT last_value FROM '' @ ''orders'' @ ''_id_seq'') = Inr (Some 1)
   \<and> (\<exists>j. fst (sequence_check postgres_world ''orders'' []) = Inr j
           \<and> field j ''max_id'' = Some (JInt 0)
           \<and> field j ''next_sequence_value'' = Some (JInt 1)
           \<and> field j ''in_sync'' = Some (JBool True)
           \<and> field j ''needs_fix'' = Some (JBool False))"
proof -
  have url: "environ postgres_world ''DATABASE_URL'' = Some ''postgresql://app@db/app''"
    by (simp add: postgres_world_def example_world_def)
  have pg: "startswith ''postgresql://app@db/app'' ''postgresql''"
    by (simp add: startswith_def)
  have q1: "execute_result (database postgres_world) [] (''SELECT MAX(id) FROM '' @ ''orders'') = Inr None"
    by (simp add: postgres_world_def example_world_def example_backend_def)
  have q2: "execute_result (database postgres_world) ([] @ [Execute (''SELECT MAX(id) FROM '' @ ''orders'')])
        (''SELECT last_value FROM '' @ ''orders'' @ ''_id_seq'') = Inr (Some 1)"
    by (simp add: postgres_world_def example_world_def example_backend_def)
  from sequence_check_in_sync [OF url pg q1 q2, of 0] url pg q1 q2 show ?thesis by simp
qed

text \<open>
  C9: when \<open>DATABASE_URL\<close> is unset or does not start with \<open>postgresql\<close>, the sequence
  check leaves the session as it was (no statement is sent) and returns an error payload
  whose \<open>database_type\<close> is \<open>sqlite\<close> when the value starts with \<open>sqlite\<close> and
  \<open>unknown\<close> otherwise, so also when the variable is unset.
\<close>

theorem sequence_check_not_postgresql:
  assumes "environ w ''DATABASE_URL'' = None
           \<or> (\<exists>u. environ w ''DATABASE_URL'' = Some u \<and> \<not> startswith u ''postgresql'')"
  shows "sequence_check w table_name db =
           (Inr (JObj [(''error'', JStr ''Sequence check only applicable to PostgreSQL''),
                       (''database_type'',
                          JStr (if \<exists>u. environ w ''DATABASE_URL'' = Some u \<and> startswith u ''sqlite''
                                then ''sqlite'' else ''unknown''))]), db)"
  using assms
  by (auto simp add: sequence_check_def Let_def getenv_default_def startswith_def)

theorem sequence_check_not_postgresql_witness:
  "environ sqlite_world ''DATABASE_URL'' = Some ''sqlite:///./dev.db''
   \<and> \<not> startswith ''sqlite:///./dev.db'' ''postgresql''
   \<and> sequence_check sqlite_world ''users'' [] =
        (Inr (JObj [(''error'', JStr ''Sequence check only applicable to PostgreSQL''),
                    (''database_type'', JStr ''sqlite'')]), [])
   \<and> environ (example_world Map.empty) ''DATABASE_URL'' = None
   \<and> sequence_check (example_world Map.empty) ''users'' [] =
        (Inr (JObj [(''error'', JStr ''Sequence check only applicable to PostgreSQL''),
                    (''database_type'', JStr ''unknown'')]), [])"
proof -
  have e: "environ sqlite_world ''DATABASE_URL'' = Some ''sqlite:///./dev.db''"
    by (simp add: sqlite_world_def example_world_def)
  have n: "\<not> startswith ''sqlite:///./dev.db'' ''postgresql''"
    by (simp add: startswith_def)
  have s: "startswith ''sqlite:///./dev.db'' ''sqlite''"
    by (simp add: startswith_def)
  have u: "environ (example_world Map.empty) ''DATABASE_URL'' = None"
    by (simp add: example_world_def)
  from e n have h1: "environ sqlite_world ''DATABASE_URL'' = None
           \<or> (\<exists>u. environ sqlite_world ''DATABASE_URL'' = Some u \<and> \<not> startswith u ''postgresql'')"
    by simp
  from u have h2: "environ (example_world Map.empty) ''DATABASE_URL'' = None
           \<or> (\<exists>u. environ (example_world Map.empty) ''DATABASE_URL'' = Some u \<and> \<not> startswith u ''postgresql'')"
    by simp
  from sequence_check_not_postgresql [OF h1, of "''users''" "[]"]
       sequence_check_not_postgresql [OF h2, of "''users''" "[]"] e n s u
  show ?thesis by simp
qed

subsection \<open>The connection module\<close>

text \<open>
  C3: when \<open>DATABASE_URL\<close> starts with \<open>postgresql\<close> and the two statements succeed,
  \<open>fix_sequence\<close> sends \<open>SELECT MAX(id)\<close> for the table, then restarts the table's
  sequence at that maximum plus one, at 1 when the table is empty (\<open>MAX(id)\<close> is NULL),
  and then commits the session; these three calls are made whatever the console does, and
  at most a rollback follows them. When neither \<open>print\<close> nor the rollback raises,
  \<open>fix_sequence\<close> returns normally, and the rollback follows exactly a commit that raised.
\<close>

theorem fix_sequence_restarts:
  assumes pg: "startswith DATABASE_URL ''postgresql''"
    and q1: "execute_result b db (''SELECT MAX(id) FROM '' @ table_name) = Inr max_row"
    and r: "restart = (case max_row of None \<Rightarrow> 1 | Some x \<Rightarrow> x + 1)"
    and q2: "execute_result b (db @ [Execute (''SELECT MAX(id) FROM '' @ table_name)])
               (''ALTER SEQUENCE '' @ table_name @ ''_id_seq RESTART WITH '' @ str_int restart) = Inr v"
  shows "(\<exists>tail. snd (fix_sequence console b DATABASE_URL table_name db) =
            db @ [Execute (''SELECT MAX(id) FROM '' @ table_name),
                  Execute (''ALTER SEQUENCE '' @ table_name @ ''_id_seq RESTART WITH '' @ str_int restart),
                  Commit] @ tail
            \<and> (tail = [] \<or> tail = [Rollback]))
       \<and> ((\<forall>text. console text = None) \<and> (\<forall>h. rollback_result b h = None) \<longrightarrow>
           fix_sequence console b DATABASE_URL table_name db =
             (Inr (),
              db @ [Execute (''SELECT MAX(id) FROM '' @ table_name),
                    Execute (''ALTER SEQUENCE '' @ table_name @ ''_id_seq RESTART WITH '' @ str_int restart),
                    Commit]
                 @ (case commit_result b
                           (db @ [Execute (''SELECT MAX(id) FROM '' @ table_name),
                                  Execute (''ALTER SEQUENCE '' @ table_name @ ''_id_seq RESTART WITH ''
                                           @ str_int restart)]) of
                      None \<Rightarrow> [] | Some msg \<Rightarrow> [Rollback])))"
proof -
  from r have r': "or_zero max_row + 1 = restart"
    by (simp add: or_zero_eq split: option.split)
  from pg q1 q2 show ?thesis
    by (simp add: fix_sequence_def fix_sequence_body_def execute_eq commit_eq rollback_eq
          print_def r' split: option.split)
qed

theorem fix_sequence_restarts_witness:
  "startswith ''postgresql://app@db/app'' ''postgresql''
   \<and> execute_result example_backend [] (''SELECT MAX(id) FROM '' @ ''users'') = Inr (Some 41)
   \<and> execute_result example_backend [Execute ''SELECT MAX(id) FROM users'']
        ''ALTER SEQUENCE users_id_seq RESTART WITH 42'' = Inr None
   \<and> fix_sequence utf8_console example_backend ''postgresql://app@db/app'' ''users'' [] =
        (Inr (), [Execute ''SELECT MAX(id) FROM users'',
                  Execute ''ALTER SEQUENCE users_id_seq RESTART WITH 42'', Commit])
   \<and> execute_result example_backend [] (''SELECT MAX(id) FROM '' @ ''orders'') = Inr None
   \<and> execute_result example_backend [Execute ''SELECT MAX(id) FROM orders'']
        ''ALTER SEQUENCE orders_id_seq RESTART WITH 1'' = Inr None
   \<and> fix_sequence utf8_console example_backend ''postgresql://app@db/app'' ''orders'' [] =
        (Inr (), [Execute ''SELECT MAX(id) FROM orders'',
                  Execute ''ALTER SEQUENCE orders_id_seq RESTART WITH 1'', Commit])"
proof -
  have pg: "startswith ''postgresql://app@db/app'' ''postgresql''"
    by (simp add: startswith_def)
  have u1: "execute_result example_backend [] (''SELECT MAX(id) FROM '' @ ''users'') = Inr (Some 41)"
    by (simp add: example_backend_def)
  have u2: "execute_result example_backend ([] @ [Execute (''SELECT MAX(id) FROM '' @ ''users'')])
        (''ALTER SEQUENCE '' @ ''users'' @ ''_id_seq RESTART WITH '' @ str_int 42) = Inr None"
    by (simp add: example_backend_def str_int_examples)
  have o1: "execute_result example_backend [] (''SELECT MAX(id) FROM '' @ ''orders'') = Inr None"
    by (simp add: example_backend_def)
  have o2: "execute_result example_backend ([] @ [Execute (''SELECT MAX(id) FROM '' @ ''orders'')])
        (''ALTER SEQUENCE '' @ ''orders'' @ ''_id_seq RESTART WITH '' @ str_int 1) = Inr None"
    by (simp add: example_backend_def str_int_examples)
  have c: "commit_result example_backend h = None" and rb: "rollback_result example_backend h = None" for h
    by (simp_all add: example_backend_def)
  have quiet: "utf8_console line = None" for line
    by (simp add: utf8_console_def)
  from fix_sequence_restarts [where console = utf8_console, OF pg u1 _ u2]
       fix_sequence_restarts [where console = utf8_console, OF pg o1 _ o2] pg u1 u2 o1 o2
  show ?thesis by (simp add: str_int_examples c rb quiet)
qed




text \<open>
  C4: the session \<open>get_db\<close> creates for a request is closed when the request completes,
  as the last call made on it, both when the handler returns and when it raises; the
  handler's result or exception is passed on unchanged.
\<close>

theorem get_db_closes_session:
  "closed (snd (serve_with_db handler))
   \<and> (\<forall>j db1. handler SessionLocal = (Inr j, db1) \<longrightarrow>
         serve_with_db handler = (Inr j, db1 @ [Close]))
   \<and> (\<forall>e db1. handler SessionLocal = (Inl e, db1) \<longrightarrow>
         serve_with_db handler = (Inl e, db1 @ [Close]))"
  by (simp add: serve_with_db_def get_db_enter_def get_db_exit_def close_def closed_def Let_def
        split: prod.split sum.split)

theorem get_db_closes_session_witness:
  "database_check (example_world Map.empty) SessionLocal =
     (Inr (JObj [(''connected'', JBool True), (''database_url_set'', JBool False),
                 (''table_count'', JInt 2),
                 (''tables'', JList [JStr ''orders'', JStr ''users'']),
                 (''timestamp'', JStr ''2024-01-01T00:00:00'')]),
      [Execute ''SELECT 1''])
   \<and> serve_with_db (database_check (example_world Map.empty)) =
     (Inr (JObj [(''connected'', JBool True), (''database_url_set'', JBool False),
                 (''table_count'', JInt 2),
                 (''tables'', JList [JStr ''orders'', JStr ''users'']),
                 (''timestamp'', JStr ''2024-01-01T00:00:00'')]),
      [Execute ''SELECT 1'', Close])
   \<and> sequence_check postgres_world ''ghosts'' SessionLocal =
     (Inl (HTTPException 500 ''Error checking sequence: relation does not exist''),
      [Execute ''SELECT MAX(id) FROM ghosts''])
   \<and> serve_with_db (sequence_check postgres_world ''ghosts'') =
     (Inl (HTTPException 500 ''Error checking sequence: relation does not exist''),
      [Execute ''SELECT MAX(id) FROM ghosts'', Close])
   \<and> closed (snd (serve_with_db (sequence_check postgres_world ''ghosts'')))"
proof -
  have n: "database_check (example_world Map.empty) SessionLocal =
     (Inr (JObj [(''connected'', JBool True), (''database_url_set'', JBool False),
                 (''table_count'', JInt 2),
                 (''tables'', JList [JStr ''orders'', JStr ''users'']),
                 (''timestamp'', JStr ''2024-01-01T00:00:00'')]),
      [Execute ''SELECT 1''])"
    by (simp add: SessionLocal_def example_db_check)
  have e: "sequence_check postgres_world ''ghosts'' SessionLocal =
     (Inl (HTTPException 500 ''Error checking sequence: relation does not exist''),
      [Execute ''SELECT MAX(id) FROM ghosts''])"
    by (simp add: SessionLocal_def example_sequence_check_ghosts)
  from get_db_closes_session [of "database_check (example_world Map.empty)"] n
  have r1: "serve_with_db (database_check (example_world Map.empty)) =
     (Inr (JObj [(''connected'', JBool True), (''database_url_set'', JBool False),
                 (''table_count'', JInt 2),
                 (''tables'', JList [JStr ''orders'', JStr ''users'']),
                 (''timestamp'', JStr ''2024-01-01T00:00:00'')]),
      [Execute ''SELECT 1'', Close])"
    by simp
  from get_db_closes_session [of "sequence_check postgres_world ''ghosts''"] e
  have r2: "serve_with_db (sequence_check postgres_world ''ghosts'') =
     (Inl (HTTPException 500 ''Error checking sequence: relation does not exist''),
      [Execute ''SELECT MAX(id) FROM ghosts'', Close])"
    and r3: "closed (snd (serve_with_db (sequence_check postgres_world ''ghosts'')))"
    by (simp_all add: closed_def)
  from n e r1 r2 r3 show ?thesis by simp
qed




subsection \<open>The diagnostic handlers\<close>

text \<open>
  C6: once the inspector has listed the tables, \<open>table_info\<close> answers 404 exactly when
  \<open>table_name\<close> is not among them; for a listed table it answers 500 when the column
  lookup, the row count or the index lookup raises, and the payload otherwise. It also
  answers 500 when the tables cannot be listed, so a 404 is never given for a listed table.
\<close>

theorem table_info_responses:
  "(\<forall>insp tables. inspect_engine (database w) = Inr insp \<and> get_table_names insp = Inr tables \<longrightarrow>
      ((\<exists>detail. fst (table_info w table_name db) = Inl (HTTPException 404 detail))
         \<longleftrightarrow> table_name \<notin> set tables)
      \<and> (table_name \<in> set tables \<longrightarrow>
            ((\<exists>msg. get_columns insp table_name = Inl msg)
              \<or> (\<exists>msg. execute_result (database w) db (''SELECT COUNT(*) FROM '' @ table_name) = Inl msg)
              \<or> (\<exists>msg. get_indexes insp table_name = Inl msg) \<longrightarrow>
             (\<exists>detail. fst (table_info w table_name db) = Inl (HTTPException 500 detail)))
          \<and> (\<forall>columns row_count indexes.
                get_columns insp table_name = Inr columns
                \<and> execute_result (database w) db (''SELECT COUNT(*) FROM '' @ table_name) = Inr row_count
                \<and> get_indexes insp table_name = Inr indexes \<longrightarrow>
                fst (table_info w table_name db) =
                  Inr (JObj [(''table_name'', JStr table_name),
                             (''row_count'', json_opt_int row_count),
                             (''column_count'', JInt (int (length columns))),
                             (''columns'', JList (map column_json columns)),
                             (''indexes'', JList (map index_json indexes)),
                             (''timestamp'', JStr (utcnow_isoformat w))]))))
   \<and> ((\<exists>msg. inspect_engine (database w) = Inl msg)
       \<or> (\<exists>insp msg. inspect_engine (database w) = Inr insp \<and> get_table_names insp = Inl msg) \<longrightarrow>
       (\<exists>detail. fst (table_info w table_name db) = Inl (HTTPException 500 detail)))"
  by (auto simp add: table_info_def table_info_body_def execute_eq
        split: sum.splits prod.splits exn.splits)

lemma example_table_info_users:
  "table_info postgres_world ''users'' [] =
     (Inr (JObj [(''table_name'', JStr ''users''), (''row_count'', JInt 41),
                 (''column_count'', JInt 2),
                 (''columns'',
                    JList [JObj [(''name'', JStr ''id''), (''type'', JStr ''INTEGER''),
                                 (''nullable'', JBool False), (''default'', JNull)],
                           JObj [(''name'', JStr ''status''), (''type'', JStr ''VARCHAR(16)''),
                                 (''nullable'', JBool True), (''default'', JStr ''new'')]]),
                 (''indexes'',
                    JList [JObj [(''name'', JStr ''ix_status''), (''columns'', JList [JStr ''status'']),
                                 (''unique'', JBool False)]]),
                 (''timestamp'', JStr ''2024-01-01T00:00:00'')]),
      [Execute ''SELECT COUNT(*) FROM users''])"
  by code_simp

theorem table_info_responses_witness:
  "inspect_engine (database postgres_world) = Inr example_inspector
   \<and> get_table_names example_inspector = Inr [''users'', ''orders'']
   \<and> ''ghosts'' \<notin> set [''users'', ''orders'']
   \<and> (\<exists>detail. fst (table_info postgres_world ''ghosts'' []) = Inl (HTTPException 404 detail))
   \<and> ''orders'' \<in> set [''users'', ''orders'']
   \<and> get_indexes example_inspector ''orders'' = Inl ''permission denied for table orders''
   \<and> (\<exists>detail. fst (table_info postgres_world ''orders'' []) = Inl (HTTPException 500 detail))
   \<and> ''users'' \<in> set [''users'', ''orders'']
   \<and> (\<exists>kvs. fst (table_info postgres_world ''users'' []) = Inr (JObj kvs)
          \<and> map_of kvs ''row_count'' = Some (JInt 41))
   \<and> inspect_engine (database unreachable_world) = Inl ''connection refused''
   \<and> (\<exists>detail. fst (table_info unreachable_world ''users'' []) = Inl (HTTPException 500 detail))"
proof -
  have i: "inspect_engine (database postgres_world) = Inr example_inspector"
    by (simp add: postgres_world_def example_world_def example_backend_def)
  have n: "get_table_names example_inspector = Inr [''users'', ''orders'']"
    by (simp add: example_inspector_def)
  have x: "get_indexes example_inspector ''orders'' = Inl ''permission denied for table orders''"
    by (simp add: example_inspector_def)
  have u: "inspect_engine (database unreachable_world) = Inl ''connection refused''"
    by (simp add: unreachable_world_def unreachable_backend_def)
  have g: "''ghosts'' \<notin> set [''users'', ''orders'']" and o: "''orders'' \<in> set [''users'', ''orders'']"
    by simp_all
  from table_info_responses [of postgres_world "''ghosts''" "[]"] i n g
  have r1: "\<exists>detail. fst (table_info postgres_world ''ghosts'' []) = Inl (HTTPException 404 detail)"
    by blast
  from table_info_responses [of postgres_world "''orders''" "[]"] i n o x
  have r2: "\<exists>detail. fst (table_info postgres_world ''orders'' []) = Inl (HTTPException 500 detail)"
    by blast
  from table_info_responses [of unreachable_world "''users''" "[]"] u
  have r3: "\<exists>detail. fst (table_info unreachable_world ''users'' []) = Inl (HTTPException 500 detail)"
    by blast
  have r4: "\<exists>kvs. fst (table_info postgres_world ''users'' []) = Inr (JObj kvs)
          \<and> map_of kvs ''row_count'' = Some (JInt 41)"
    by (simp add: example_table_info_users)
  from i n x u r1 r2 r3 r4 show ?thesis by simp
qed

text \<open>
  C7: \<open>database_check\<close> always returns a payload. When the probe statement, the
  inspector and the table listing succeed, \<open>connected\<close> is true, \<open>table_count\<close> is the
  number of table names and \<open>tables\<close> holds the same names in ascending order; when one
  of them raises, \<open>connected\<close> is false and \<open>error\<close> is the text of the exception.
\<close>

theorem database_check_never_raises:
  "(\<exists>j. fst (database_check w db) = Inr j)
   \<and> (\<forall>v insp tables.
         execute_result (database w) db ''SELECT 1'' = Inr v
         \<and> inspect_engine (database w) = Inr insp \<and> get_table_names insp = Inr tables \<longrightarrow>
         (\<exists>j ts. fst (database_check w db) = Inr j
            \<and> field j ''connected'' = Some (JBool True)
            \<and> field j ''table_count'' = Some (JInt (int (length tables)))
            \<and> field j ''tables'' = Some (JList (map JStr ts))
            \<and> sorted ts \<and> mset ts = mset tables))
   \<and> (\<forall>msg.
         execute_result (database w) db ''SELECT 1'' = Inl msg
         \<or> (\<exists>v. execute_result (database w) db ''SELECT 1'' = Inr v
               \<and> inspect_engine (database w) = Inl msg)
         \<or> (\<exists>v insp. execute_result (database w) db ''SELECT 1'' = Inr v
               \<and> inspect_engine (database w) = Inr insp \<and> get_table_names insp = Inl msg) \<longrightarrow>
         (\<exists>j. fst (database_check w db) = Inr j
            \<and> field j ''connected'' = Some (JBool False)
            \<and> field j ''error'' = Some (JStr msg)))"
proof (intro conjI allI impI)
  show "\<exists>j. fst (database_check w db) = Inr j"
    using database_check_mapping [of w db] by blast
next
  fix v insp tables
  assume "execute_result (database w) db ''SELECT 1'' = Inr v
         \<and> inspect_engine (database w) = Inr insp \<and> get_table_names insp = Inr tables"
  then have "fst (database_check w db) =
      Inr (JObj [(''connected'', JBool True),
                 (''database_url_set'', JBool (truthy (getenv (environ w) ''DATABASE_URL''))),
                 (''table_count'', JInt (int (length tables))),
                 (''tables'', JList (map JStr (sort tables))),
                 (''timestamp'', JStr (utcnow_isoformat w))])"
    by (simp add: database_check_def database_check_body_def execute_eq)
  moreover have "sorted (sort tables)" "mset (sort tables) = mset tables"
    by simp_all
  ultimately show "\<exists>j ts. fst (database_check w db) = Inr j
            \<and> field j ''connected'' = Some (JBool True)
            \<and> field j ''table_count'' = Some (JInt (int (length tables)))
            \<and> field j ''tables'' = Some (JList (map JStr ts))
            \<and> sorted ts \<and> mset ts = mset tables"
    by auto
next
  fix msg
  assume "execute_result (database w) db ''SELECT 1'' = Inl msg
         \<or> (\<exists>v. execute_result (database w) db ''SELECT 1'' = Inr v
               \<and> inspect_engine (database w) = Inl msg)
         \<or> (\<exists>v insp. execute_result (database w) db ''SELECT 1'' = Inr v
               \<and> inspect_engine (database w) = Inr insp \<and> get_table_names insp = Inl msg)"
  then show "\<exists>j. fst (database_check w db) = Inr j
            \<and> field j ''connected'' = Some (JBool False)
            \<and> field j ''error'' = Some (JStr msg)"
    by (auto simp add: database_check_def database_check_body_def execute_eq)
qed

lemma example_db_check_unreachable:
  "database_check unreachable_world [] =
     (Inr (JObj [(''connected'', JBool False), (''error'', JStr ''connection refused''),
                 (''database_url_set'', JBool True),
                 (''timestamp'', JStr ''2024-01-01T00:00:00'')]),
      [Execute ''SELECT 1''])"
  by code_simp

theorem database_check_never_raises_witness:
  "execute_result (database (example_world Map.empty)) [] ''SELECT 1'' = Inr None
   \<and> inspect_engine (database (example_world Map.empty)) = Inr example_inspector
   \<and> get_table_names example_inspector = Inr [''users'', ''orders'']
   \<and> (\<exists>j ts. fst (database_check (example_world Map.empty) []) = Inr j
          \<and> field j ''connected'' = Some (JBool True)
          \<and> field j ''table_count'' = Some (JInt 2)
          \<and> field j ''tables'' = Some (JList (map JStr ts))
          \<and> sorted ts \<and> mset ts = mset [''users'', ''orders''])
   \<and> fst (database_check (example_world Map.empty) []) =
        Inr (JObj [(''connected'', JBool True), (''database_url_set'', JBool False),
                   (''table_count'', JInt 2),
                   (''tables'', JList [JStr ''orders'', JStr ''users'']),
                   (''timestamp'', JStr ''2024-01-01T00:00:00'')])
   \<and> execute_result (database unreachable_world) [] ''SELECT 1'' = Inl ''connection refused''
   \<and> (\<exists>j. fst (database_check unreachable_world []) = Inr j
          \<and> field j ''connected'' = Some (JBool False)
          \<and> field j ''error'' = Some (JStr ''connection refused''))"
proof -
  have e: "execute_result (database (example_world Map.empty)) [] ''SELECT 1'' = Inr None"
    by (simp add: example_world_def example_backend_def)
  have i: "inspect_engine (database (example_world Map.empty)) = Inr example_inspector"
    by (simp add: example_world_def example_backend_def)
  have n: "get_table_names example_inspector = Inr [''users'', ''orders'']"
    by (simp add: example_inspector_def)
  have u: "execute_result (database unreachable_world) [] ''SELECT 1'' = Inl ''connection refused''"
    by (simp add: unreachable_world_def unreachable_backend_def)
  note a = database_check_never_raises [of "example_world Map.empty" "[]"]
  note b = database_check_never_raises [of unreachable_world "[]"]
  from a e i n
  have r1: "\<exists>j ts. fst (database_check (example_world Map.empty) []) = Inr j
          \<and> field j ''connected'' = Some (JBool True)
          \<and> field j ''table_count'' = Some (JInt (int (length [''users'', ''orders''])))
          \<and> field j ''tables'' = Some (JList (map JStr ts))
          \<and> sorted ts \<and> mset ts = mset [''users'', ''orders'']"
    by blast
  from b u
  have r2: "\<exists>j. fst (database_check unreachable_world []) = Inr j
          \<and> field j ''connected'' = Some (JBool False)
          \<and> field j ''error'' = Some (JStr ''connection refused'')"
    by blast
  have r3: "fst (database_check (example_world Map.empty) []) =
        Inr (JObj [(''connected'', JBool True), (''database_url_set'', JBool False),
                   (''table_count'', JInt 2),
                   (''tables'', JList [JStr ''orders'', JStr ''users'']),
                   (''timestamp'', JStr ''2024-01-01T00:00:00'')])"
    by (simp add: example_db_check)
  from r1 have r1': "\<exists>j ts. fst (database_check (example_world Map.empty) []) = Inr j
          \<and> field j ''connected'' = Some (JBool True)
          \<and> field j ''table_count'' = Some (JInt 2)
          \<and> field j ''tables'' = Some (JList (map JStr ts))
          \<and> sorted ts \<and> mset ts = mset [''users'', ''orders'']"
    by simp
  from e i n u r1' r2 r3 show ?thesis by blast
qed

text \<open>
  C8, as stated, fails: two environments in which the same variables are set, one of them
  to the empty string, get different responses.
\<close>

theorem environment_check_counterexample:
  "list_all (\<lambda>k. ([''DATABASE_URL'' \<mapsto> ''postgresql://app@db/app''] k = None)
                 = ([''DATABASE_URL'' \<mapsto> []] k = None)) checked_variables
   \<and> [''DATABASE_URL'' \<mapsto> ''postgresql://app@db/app''] ''ENVIRONMENT''
       = [''DATABASE_URL'' \<mapsto> []] ''ENVIRONMENT''
   \<and> without_key ''timestamp'' (environment_check postgres_world)
       \<noteq> without_key ''timestamp'' (environment_check (example_world [''DATABASE_URL'' \<mapsto> []]))"
  by (simp add: checked_variables_def environment_check_def postgres_world_def example_world_def
        getenv_def getenv_default_def truthy_def)

text \<open>
  C8, amended: two environments that agree on which of the seven checked variables have
  a non-empty value, and on the value of \<open>ENVIRONMENT\<close>, get the same response from
  \<open>environment_check\<close> apart from the timestamp. The \<open>variables\<close> mapping holds one
  boolean for each checked variable, true exactly when its value is non-empty, and the
  \<open>environment\<close> field holds the value of \<open>ENVIRONMENT\<close>, or \<open>unknown\<close> when
  it is unset.
\<close>

theorem environment_check_noninterference:
  assumes "\<forall>k \<in> set checked_variables. truthy (environ w1 k) = truthy (environ w2 k)"
    and "environ w1 ''ENVIRONMENT'' = environ w2 ''ENVIRONMENT''"
  shows "without_key ''timestamp'' (environment_check w1)
           = without_key ''timestamp'' (environment_check w2)
       \<and> (\<exists>kvs. field (environment_check w1) ''variables'' = Some (JObj kvs)
             \<and> map snd kvs = map (\<lambda>k. JBool (truthy (environ w1 k))) checked_variables)
       \<and> field (environment_check w1) ''environment''
           = Some (JStr (case environ w1 ''ENVIRONMENT'' of None \<Rightarrow> ''unknown'' | Some v \<Rightarrow> v))"
  using assms
  by (simp add: checked_variables_def environment_check_def getenv_def getenv_default_def)

theorem environment_check_noninterference_witness:
  "list_all (\<lambda>k. truthy (environ postgres_world k) = truthy (environ sqlite_world k)) checked_variables
   \<and> environ postgres_world ''ENVIRONMENT'' = environ sqlite_world ''ENVIRONMENT''
   \<and> environ postgres_world ''DATABASE_URL'' \<noteq> environ sqlite_world ''DATABASE_URL''
   \<and> without_key ''timestamp'' (environment_check postgres_world)
        = without_key ''timestamp'' (environment_check sqlite_world)
   \<and> field (environment_check postgres_world) ''environment'' = Some (JStr ''unknown'')"
proof -
  have h1: "\<forall>k \<in> set checked_variables. truthy (environ postgres_world k) = truthy (environ sqlite_world k)"
    by (simp add: checked_variables_def postgres_world_def sqlite_world_def example_world_def truthy_def)
  have h2: "environ postgres_world ''ENVIRONMENT'' = environ sqlite_world ''ENVIRONMENT''"
    by (simp add: postgres_world_def sqlite_world_def example_world_def)
  have d: "environ postgres_world ''DATABASE_URL'' \<noteq> environ sqlite_world ''DATABASE_URL''"
    by (simp add: postgres_world_def sqlite_world_def example_world_def)
  have u: "environ postgres_world ''ENVIRONMENT'' = None"
    by (simp add: postgres_world_def example_world_def)
  from environment_check_noninterference [OF h1 h2] h1 h2 d u show ?thesis
    by (simp add: list_all_iff)
qed

end
